theory Spec2Isabelle
  imports Main "HOL-Library.Product_Lexorder"
begin

section \<open>Build configuration\<close>

text \<open>
  The headers and module files are conditionally compiled. What a build sees is fixed by
  the three components of the OpenCV version and by the module flags of
  \<^verbatim>\<open>opencv_modules.h\<close>.
\<close>

record config =
  CV_VERSION_MAJOR :: nat
  CV_VERSION_MINOR :: nat
  CV_VERSION_REVISION :: nat
  HAVE_OPENCV_OBJDETECT :: bool
  HAVE_OPENCV_XFEATURES2D :: bool

text \<open>
  Modelled from the spec: the macro \<^verbatim>\<open>CV_VERSION_GREATER_EQUAL(major, minor, revision)\<close>
  is used by the headers but defined in a header that is not among the sources. It is
  read as its name and the claims read it: the build's version is at least
  \<^verbatim>\<open>major.minor.revision\<close>, comparing major first, then minor, then revision.
\<close>

definition CV_VERSION_GREATER_EQUAL :: "'a config_scheme \<Rightarrow> nat \<Rightarrow> nat \<Rightarrow> nat \<Rightarrow> bool" where
  "CV_VERSION_GREATER_EQUAL cfg major minor revision =
     (CV_VERSION_MAJOR cfg > major
      \<or> (CV_VERSION_MAJOR cfg = major \<and> CV_VERSION_MINOR cfg > minor)
      \<or> (CV_VERSION_MAJOR cfg = major \<and> CV_VERSION_MINOR cfg = minor
          \<and> CV_VERSION_REVISION cfg \<ge> revision))"

section \<open>The native library as seen from the wrappers\<close>

text \<open>
  A \<^verbatim>\<open>cv::Ptr<T>\<close> is an address of a native object or the empty pointer
  (\<open>None\<close>). A path is a \<^verbatim>\<open>std::string\<close>.
\<close>

type_synonym path = string
type_synonym addr = nat
type_synonym handle = "addr option"

text \<open>The template argument of \<^verbatim>\<open>cv::Algorithm::load<T>\<close>.\<close>

datatype algorithm = cv_face_EigenFaceRecognizer | cv_face_LBPHFaceRecognizer

text \<open>
  The native entry points the face recognizer wrappers reach. The library is not part of
  the repository, so it is a parameter: \<open>'w\<close> is whatever state the library and the file
  system have, \<open>'e\<close> is whatever it throws. A member function is entered on an object,
  so it takes an address. \<open>cv_release\<close> is what the library does when a
  \<^verbatim>\<open>cv::Ptr\<close> gives up its reference to the object at an address (count down, destroy
  the object when it was the last).
\<close>

record ('w, 'e) native =
  cv_save :: "addr \<Rightarrow> path \<Rightarrow> 'w \<Rightarrow> ('e + unit) \<times> 'w"
  cv_load :: "addr \<Rightarrow> path \<Rightarrow> 'w \<Rightarrow> ('e + unit) \<times> 'w"
  cv_Algorithm_load :: "algorithm \<Rightarrow> path \<Rightarrow> 'w \<Rightarrow> ('e + handle) \<times> 'w"
  cv_release :: "addr \<Rightarrow> 'w \<Rightarrow> 'w"

text \<open>The native entries a run has made, in order, with their receiver and argument.\<close>

datatype native_call =
    Member_save addr path
  | Member_load addr path
  | Static_Algorithm_load algorithm path
  | Ptr_release addr

record 'w process =
  calls :: "native_call list"
  lib :: 'w

definition call_save ::
  "('w, 'e) native \<Rightarrow> addr \<Rightarrow> path \<Rightarrow> 'w process \<Rightarrow> ('e + unit) \<times> 'w process" where
  "call_save N a p s =
     (case cv_save N a p (lib s) of
        (r, w) \<Rightarrow> (r, \<lparr>calls = calls s @ [Member_save a p], lib = w\<rparr>))"

definition call_load ::
  "('w, 'e) native \<Rightarrow> addr \<Rightarrow> path \<Rightarrow> 'w process \<Rightarrow> ('e + unit) \<times> 'w process" where
  "call_load N a p s =
     (case cv_load N a p (lib s) of
        (r, w) \<Rightarrow> (r, \<lparr>calls = calls s @ [Member_load a p], lib = w\<rparr>))"

definition call_Algorithm_load ::
  "('w, 'e) native \<Rightarrow> algorithm \<Rightarrow> path \<Rightarrow> 'w process \<Rightarrow> ('e + handle) \<times> 'w process" where
  "call_Algorithm_load N T p s =
     (case cv_Algorithm_load N T p (lib s) of
        (r, w) \<Rightarrow> (r, \<lparr>calls = calls s @ [Static_Algorithm_load T p], lib = w\<rparr>))"

text \<open>
  Assigning to a \<^verbatim>\<open>cv::Ptr\<close> field releases the object the field held before, if
  it held one; an empty pointer has nothing to release.
\<close>

definition release_held :: "('w, 'e) native \<Rightarrow> handle \<Rightarrow> 'w process \<Rightarrow> 'w process" where
  "release_held N h s =
     (case h of
        None \<Rightarrow> s
      | Some a \<Rightarrow> \<lparr>calls = calls s @ [Ptr_release a], lib = cv_release N a (lib s)\<rparr>)"

text \<open>
  How a wrapper method ends: it returns, it throws what the library threw, or the process
  crashes. \<^verbatim>\<open>faceRecognizer->save(path)\<close> through an empty pointer dereferences a null
  pointer: the process stops there, no native entry point is entered and nothing is
  delivered to the caller.
\<close>

datatype ('e, 'a) outcome = Crash | Throw 'e | Return 'a

fun of_native :: "'e + 'a \<Rightarrow> ('e, 'a) outcome" where
  "of_native (Inl x) = Throw x"
| "of_native (Inr v) = Return v"

section \<open>The face recognizer wrappers\<close>

text \<open>
  \<^verbatim>\<open>class EigenFaceRecognizer : public FaceRecognizer\<close> has one field of its own,
  \<^verbatim>\<open>cv::Ptr<cv::face::FaceRecognizer> faceRecognizer\<close>. Whatever the base class
  adds is the record's extension. A method takes the object and the process state and
  returns how it ended, the object and the state after it. The methods have no test of
  the pointer: the case distinction below is the dereference itself.
\<close>

record EigenFaceRecognizer =
  faceRecognizer :: handle

definition EigenFaceRecognizer_save ::
  "('w, 'e) native \<Rightarrow> 'a EigenFaceRecognizer_scheme \<Rightarrow> path \<Rightarrow> 'w process
     \<Rightarrow> ('e, unit) outcome \<times> 'a EigenFaceRecognizer_scheme \<times> 'w process" where
  "EigenFaceRecognizer_save N this path s =
     (case EigenFaceRecognizer.faceRecognizer this of
        None \<Rightarrow> (Crash, this, s)
      | Some a \<Rightarrow> (case call_save N a path s of (r, s') \<Rightarrow> (of_native r, this, s')))"

text \<open>
  From 3.3.0 on, the result of the static load is assigned to the field, and the
  assignment releases the object held before; when the load throws, the assignment is not
  reached.
\<close>

definition EigenFaceRecognizer_load ::
  "('w, 'e) native \<Rightarrow> 'c config_scheme \<Rightarrow> 'a EigenFaceRecognizer_scheme \<Rightarrow> path \<Rightarrow> 'w process
     \<Rightarrow> ('e, unit) outcome \<times> 'a EigenFaceRecognizer_scheme \<times> 'w process" where
  "EigenFaceRecognizer_load N cfg this path s =
     (if CV_VERSION_GREATER_EQUAL cfg 3 3 0 then
        (case call_Algorithm_load N cv_face_EigenFaceRecognizer path s of
           (Inl e, s') \<Rightarrow> (Throw e, this, s')
         | (Inr h, s') \<Rightarrow>
             (Return (), this\<lparr>EigenFaceRecognizer.faceRecognizer := h\<rparr>,
              release_held N (EigenFaceRecognizer.faceRecognizer this) s'))
      else
        (case EigenFaceRecognizer.faceRecognizer this of
           None \<Rightarrow> (Crash, this, s)
         | Some a \<Rightarrow> (case call_load N a path s of (r, s') \<Rightarrow> (of_native r, this, s'))))"

definition EigenFaceRecognizer_getFaceRecognizer ::
  "'a EigenFaceRecognizer_scheme \<Rightarrow> handle \<times> 'a EigenFaceRecognizer_scheme" where
  "EigenFaceRecognizer_getFaceRecognizer this = (EigenFaceRecognizer.faceRecognizer this, this)"

record LBPHFaceRecognizer =
  faceRecognizer :: handle

definition LBPHFaceRecognizer_save ::
  "('w, 'e) native \<Rightarrow> 'a LBPHFaceRecognizer_scheme \<Rightarrow> path \<Rightarrow> 'w process
     \<Rightarrow> ('e, unit) outcome \<times> 'a LBPHFaceRecognizer_scheme \<times> 'w process" where
  "LBPHFaceRecognizer_save N this path s =
     (case LBPHFaceRecognizer.faceRecognizer this of
        None \<Rightarrow> (Crash, this, s)
      | Some a \<Rightarrow> (case call_save N a path s of (r, s') \<Rightarrow> (of_native r, this, s')))"

definition LBPHFaceRecognizer_load ::
  "('w, 'e) native \<Rightarrow> 'c config_scheme \<Rightarrow> 'a LBPHFaceRecognizer_scheme \<Rightarrow> path \<Rightarrow> 'w process
     \<Rightarrow> ('e, unit) outcome \<times> 'a LBPHFaceRecognizer_scheme \<times> 'w process" where
  "LBPHFaceRecognizer_load N cfg this path s =
     (if CV_VERSION_GREATER_EQUAL cfg 3 3 0 then
        (case call_Algorithm_load N cv_face_LBPHFaceRecognizer path s of
           (Inl e, s') \<Rightarrow> (Throw e, this, s')
         | (Inr h, s') \<Rightarrow>
             (Return (), this\<lparr>LBPHFaceRecognizer.faceRecognizer := h\<rparr>,
              release_held N (LBPHFaceRecognizer.faceRecognizer this) s'))
      else
        (case LBPHFaceRecognizer.faceRecognizer this of
           None \<Rightarrow> (Crash, this, s)
         | Some a \<Rightarrow> (case call_load N a path s of (r, s') \<Rightarrow> (of_native r, this, s'))))"

definition LBPHFaceRecognizer_getFaceRecognizer ::
  "'a LBPHFaceRecognizer_scheme \<Rightarrow> handle \<times> 'a LBPHFaceRecognizer_scheme" where
  "LBPHFaceRecognizer_getFaceRecognizer this = (LBPHFaceRecognizer.faceRecognizer this, this)"

section \<open>The tracker wrappers\<close>

text \<open>
  \<^verbatim>\<open>cv::Ptr<cv::TrackerMOSSE> tracker\<close> is returned as a
  \<^verbatim>\<open>cv::Ptr<cv::Tracker>\<close>: the same address under the base type.
\<close>

record TrackerMOSSE =
  tracker :: handle

definition TrackerMOSSE_getTracker ::
  "'a TrackerMOSSE_scheme \<Rightarrow> handle \<times> 'a TrackerMOSSE_scheme" where
  "TrackerMOSSE_getTracker this = (TrackerMOSSE.tracker this, this)"

record TrackerGOTURN =
  tracker :: handle

definition TrackerGOTURN_getTracker ::
  "'a TrackerGOTURN_scheme \<Rightarrow> handle \<times> 'a TrackerGOTURN_scheme" where
  "TrackerGOTURN_getTracker this = (TrackerGOTURN.tracker this, this)"

section \<open>A round trip as a caller makes it\<close>





section \<open>Class declarations and conditional compilation\<close>

text \<open>
  A class as its header declares it: its base and the members of its own body, in source
  order. Every body opens with \<^verbatim>\<open>public:\<close> and every base is a public base, so all
  members listed are public. A header gives the declarations that survive preprocessing
  under a configuration.
\<close>

datatype member =
    Field string
  | Method string
  | Static_method string
  | Static_field string
  | Nested_struct string


record class_decl =
  class_name :: string
  base_class :: string
  members :: "member list"

definition EigenFaceRecognizer_class :: class_decl where
  "EigenFaceRecognizer_class =
     \<lparr>class_name = ''EigenFaceRecognizer'', base_class = ''FaceRecognizer'',
      members = [Field ''faceRecognizer'', Method ''save'', Method ''load'',
                 Static_method ''Init'', Static_method ''New'',
                 Static_field ''constructor'', Method ''getFaceRecognizer'']\<rparr>"

definition LBPHFaceRecognizer_class :: class_decl where
  "LBPHFaceRecognizer_class =
     \<lparr>class_name = ''LBPHFaceRecognizer'', base_class = ''FaceRecognizer'',
      members = [Field ''faceRecognizer'', Method ''save'', Method ''load'',
                 Static_method ''Init'', Nested_struct ''NewWorker'', Static_method ''New'',
                 Static_field ''constructor'', Method ''getFaceRecognizer'']\<rparr>"

definition TrackerMOSSE_class :: class_decl where
  "TrackerMOSSE_class =
     \<lparr>class_name = ''TrackerMOSSE'', base_class = ''Tracker'',
      members = [Field ''tracker'', Static_method ''Init'', Static_method ''New'',
                 Static_field ''constructor'', Method ''getTracker'']\<rparr>"

definition TrackerGOTURN_class :: class_decl where
  "TrackerGOTURN_class =
     \<lparr>class_name = ''TrackerGOTURN'', base_class = ''Tracker'',
      members = [Field ''tracker'', Static_method ''Init'', Static_method ''New'',
                 Static_field ''constructor'', Method ''getTracker'']\<rparr>"




definition EigenFaceRecognizer_h :: "'c config_scheme \<Rightarrow> class_decl list" where
  "EigenFaceRecognizer_h cfg = [EigenFaceRecognizer_class]"

definition LBPHFaceRecognizer_h :: "'c config_scheme \<Rightarrow> class_decl list" where
  "LBPHFaceRecognizer_h cfg = [LBPHFaceRecognizer_class]"

definition TrackerMOSSE_h :: "'c config_scheme \<Rightarrow> class_decl list" where
  "TrackerMOSSE_h cfg =
     (if CV_VERSION_GREATER_EQUAL cfg 3 4 0 then [TrackerMOSSE_class] else [])"

definition TrackerGOTURN_h :: "'c config_scheme \<Rightarrow> class_decl list" where
  "TrackerGOTURN_h cfg =
     (if CV_VERSION_GREATER_EQUAL cfg 3 2 0 then [TrackerGOTURN_class] else [])"

text \<open>The functions a module file defines under a configuration.\<close>

definition objdetect_cc :: "'c config_scheme \<Rightarrow> string list" where
  "objdetect_cc cfg = (if HAVE_OPENCV_OBJDETECT cfg then [''Objdetect::Init''] else [])"

definition xfeatures2d_cc :: "'c config_scheme \<Rightarrow> string list" where
  "xfeatures2d_cc cfg = (if HAVE_OPENCV_XFEATURES2D cfg then [''XFeatures2d::Init''] else [])"

section \<open>Module registration\<close>

text \<open>
  The member classes' own \<^verbatim>\<open>Init\<close> functions are defined elsewhere, so they are a
  parameter \<open>I\<close>: what \<^verbatim>\<open>C::Init(target)\<close> does to the target. The host state
  keeps, beside the target, the member \<^verbatim>\<open>Init\<close>s that have run, in order.
\<close>

datatype wrapper_class =
    CascadeClassifier | HOGDescriptor | DetectionROI | SIFTDetector | SURFDetector

record 't host =
  inits :: "wrapper_class list"
  target :: 't

definition call_Init :: "(wrapper_class \<Rightarrow> 't \<Rightarrow> 't) \<Rightarrow> wrapper_class \<Rightarrow> 't host \<Rightarrow> 't host" where
  "call_Init I c s = \<lparr>inits = inits s @ [c], target = I c (target s)\<rparr>"

definition Objdetect_Init :: "(wrapper_class \<Rightarrow> 't \<Rightarrow> 't) \<Rightarrow> 't host \<Rightarrow> 't host" where
  "Objdetect_Init I s =
     (let s1 = call_Init I CascadeClassifier s;
          s2 = call_Init I HOGDescriptor s1;
          s3 = call_Init I DetectionROI s2
      in s3)"

definition XFeatures2d_Init :: "(wrapper_class \<Rightarrow> 't \<Rightarrow> 't) \<Rightarrow> 't host \<Rightarrow> 't host" where
  "XFeatures2d_Init I s =
     (let s1 = call_Init I SIFTDetector s;
          s2 = call_Init I SURFDetector s1
      in s2)"

section \<open>A small library to run the wrappers on\<close>

text \<open>
  An instance of the library parameter, used only where a statement is evaluated at a
  concrete input. Its state is a file system (the newest entry of a path first) and the
  objects it has allocated, an address being an index and a destroyed object being
  \<open>None\<close>; a model is a number. Every pointer owns its object alone, so a release
  destroys it. Saving an object that does not exist and loading a path that has no file
  throw.
\<close>

record sim =
  files :: "(path \<times> nat) list"
  objects :: "nat option list"

definition sim_model :: "sim \<Rightarrow> handle \<Rightarrow> nat option" where
  "sim_model w h =
     (case h of
        None \<Rightarrow> None
      | Some a \<Rightarrow> (if a < length (objects w) then objects w ! a else None))"

definition sim_save :: "addr \<Rightarrow> path \<Rightarrow> sim \<Rightarrow> (string + unit) \<times> sim" where
  "sim_save a p w =
     (case sim_model w (Some a) of
        None \<Rightarrow> (Inl ''no object'', w)
      | Some m \<Rightarrow> (Inr (), w\<lparr>files := (p, m) # files w\<rparr>))"

definition sim_load :: "addr \<Rightarrow> path \<Rightarrow> sim \<Rightarrow> (string + unit) \<times> sim" where
  "sim_load a p w =
     (case sim_model w (Some a) of
        None \<Rightarrow> (Inl ''no object'', w)
      | Some old \<Rightarrow>
          (case map_of (files w) p of
             None \<Rightarrow> (Inl ''cannot open file'', w)
           | Some m \<Rightarrow> (Inr (), w\<lparr>objects := (objects w)[a := Some m]\<rparr>)))"

definition sim_Algorithm_load :: "algorithm \<Rightarrow> path \<Rightarrow> sim \<Rightarrow> (string + handle) \<times> sim" where
  "sim_Algorithm_load T p w =
     (case map_of (files w) p of
        None \<Rightarrow> (Inl ''cannot open file'', w)
      | Some m \<Rightarrow> (Inr (Some (length (objects w))), w\<lparr>objects := objects w @ [Some m]\<rparr>))"

definition sim_release :: "addr \<Rightarrow> sim \<Rightarrow> sim" where
  "sim_release a w = w\<lparr>objects := (objects w)[a := None]\<rparr>"

definition sim_native :: "(sim, string) native" where
  "sim_native =
     \<lparr>cv_save = sim_save, cv_load = sim_load, cv_Algorithm_load = sim_Algorithm_load,
      cv_release = sim_release\<rparr>"

text \<open>Two builds and a process state to evaluate at.\<close>

definition cv_3_2_0 :: config where
  "cv_3_2_0 = \<lparr>CV_VERSION_MAJOR = 3, CV_VERSION_MINOR = 2, CV_VERSION_REVISION = 0,
               HAVE_OPENCV_OBJDETECT = True, HAVE_OPENCV_XFEATURES2D = False\<rparr>"

definition cv_3_3_0 :: config where
  "cv_3_3_0 = \<lparr>CV_VERSION_MAJOR = 3, CV_VERSION_MINOR = 3, CV_VERSION_REVISION = 0,
               HAVE_OPENCV_OBJDETECT = True, HAVE_OPENCV_XFEATURES2D = False\<rparr>"

definition sim_start :: "sim process" where
  "sim_start = \<lparr>calls = [], lib = \<lparr>files = [(''model.yml'', 7)], objects = [Some 5]\<rparr>\<rparr>"

section \<open>Reading a run\<close>

text \<open>The native entries made between two process states.\<close>

definition calls_made :: "'w process \<Rightarrow> 'v process \<Rightarrow> native_call list" where
  "calls_made s s' = drop (length (calls s)) (calls s')"

section \<open>The version macro is the order on version triples\<close>

lemma version_at_least:
  "CV_VERSION_GREATER_EQUAL cfg major minor revision
     = ((major, minor, revision)
          \<le> (CV_VERSION_MAJOR cfg, CV_VERSION_MINOR cfg, CV_VERSION_REVISION cfg))"
  by (auto simp: CV_VERSION_GREATER_EQUAL_def less_eq_prod_def less_prod_def)

section \<open>Accessors\<close>

text \<open>
  Claim C9. For every wrapper state, \<^verbatim>\<open>getFaceRecognizer\<close> (on the two recognizer
  wrappers) and \<^verbatim>\<open>getTracker\<close> (on the two tracker wrappers) return exactly the
  handle stored in the wrapper and leave the wrapper, every field of it and whatever the
  base class adds, as it was.
\<close>

theorem accessors_are_pure_observers:
  "EigenFaceRecognizer_getFaceRecognizer e = (EigenFaceRecognizer.faceRecognizer e, e)
   \<and> LBPHFaceRecognizer_getFaceRecognizer l = (LBPHFaceRecognizer.faceRecognizer l, l)
   \<and> TrackerMOSSE_getTracker m = (TrackerMOSSE.tracker m, m)
   \<and> TrackerGOTURN_getTracker g = (TrackerGOTURN.tracker g, g)"
  by (simp add: EigenFaceRecognizer_getFaceRecognizer_def LBPHFaceRecognizer_getFaceRecognizer_def
      TrackerMOSSE_getTracker_def TrackerGOTURN_getTracker_def)

theorem accessors_are_pure_observers_witness:
  "fst (EigenFaceRecognizer_getFaceRecognizer \<lparr>EigenFaceRecognizer.faceRecognizer = Some 4\<rparr>)
     = Some 4
   \<and> snd (TrackerMOSSE_getTracker \<lparr>TrackerMOSSE.tracker = None\<rparr>)
     = \<lparr>TrackerMOSSE.tracker = None\<rparr>"
  using accessors_are_pure_observers
    [of "\<lparr>EigenFaceRecognizer.faceRecognizer = Some 4\<rparr>"
        "\<lparr>LBPHFaceRecognizer.faceRecognizer = None\<rparr>"
        "\<lparr>TrackerMOSSE.tracker = None\<rparr>" "\<lparr>TrackerGOTURN.tracker = Some 2\<rparr>"]
  by simp

section \<open>Conditional compilation of the surface\<close>

text \<open>
  Claim C10. The surface is gated at compile time: the header of \<^verbatim>\<open>TrackerMOSSE\<close>
  declares the class exactly when the OpenCV version is at least 3.4.0 and declares
  nothing below it; the header of \<^verbatim>\<open>TrackerGOTURN\<close> likewise at 3.2.0; the module
  files define \<^verbatim>\<open>Objdetect::Init\<close> and \<^verbatim>\<open>XFeatures2d::Init\<close> exactly when
  \<^verbatim>\<open>HAVE_OPENCV_OBJDETECT\<close> and \<^verbatim>\<open>HAVE_OPENCV_XFEATURES2D\<close> are defined, and
  nothing otherwise. Versions are compared as triples, major first.
\<close>

theorem surface_is_gated:
  "(TrackerMOSSE_h cfg = [TrackerMOSSE_class])
      = ((3, 4, 0) \<le> (CV_VERSION_MAJOR cfg, CV_VERSION_MINOR cfg, CV_VERSION_REVISION cfg))
   \<and> (TrackerMOSSE_h cfg = [])
      = ((CV_VERSION_MAJOR cfg, CV_VERSION_MINOR cfg, CV_VERSION_REVISION cfg) < (3, 4, 0))
   \<and> (TrackerGOTURN_h cfg = [TrackerGOTURN_class])
      = ((3, 2, 0) \<le> (CV_VERSION_MAJOR cfg, CV_VERSION_MINOR cfg, CV_VERSION_REVISION cfg))
   \<and> (TrackerGOTURN_h cfg = [])
      = ((CV_VERSION_MAJOR cfg, CV_VERSION_MINOR cfg, CV_VERSION_REVISION cfg) < (3, 2, 0))
   \<and> (objdetect_cc cfg = [''Objdetect::Init'']) = HAVE_OPENCV_OBJDETECT cfg
   \<and> (objdetect_cc cfg = []) = (\<not> HAVE_OPENCV_OBJDETECT cfg)
   \<and> (xfeatures2d_cc cfg = [''XFeatures2d::Init'']) = HAVE_OPENCV_XFEATURES2D cfg
   \<and> (xfeatures2d_cc cfg = []) = (\<not> HAVE_OPENCV_XFEATURES2D cfg)"
  by (auto simp: TrackerMOSSE_h_def TrackerGOTURN_h_def objdetect_cc_def xfeatures2d_cc_def
      CV_VERSION_GREATER_EQUAL_def less_eq_prod_def less_prod_def)

theorem surface_is_gated_witness:
  "TrackerMOSSE_h cv_3_3_0 = [] \<and> TrackerGOTURN_h cv_3_3_0 = [TrackerGOTURN_class]
   \<and> objdetect_cc cv_3_3_0 = [''Objdetect::Init''] \<and> xfeatures2d_cc cv_3_3_0 = []"
  using surface_is_gated [of cv_3_3_0]
  by (simp add: cv_3_3_0_def less_eq_prod_def less_prod_def)

section \<open>What the wrapper methods compute\<close>

lemma of_native_Throw: "(of_native r = Throw x) = (r = Inl x)"
  by (cases r) simp_all

lemma of_native_not_Crash: "of_native r \<noteq> Crash"
  by (cases r) simp_all

lemma EigenFaceRecognizer_save_some:
  "EigenFaceRecognizer.faceRecognizer this = Some a \<Longrightarrow>
   EigenFaceRecognizer_save N this p s =
     (of_native (fst (cv_save N a p (lib s))), this,
      \<lparr>calls = calls s @ [Member_save a p], lib = snd (cv_save N a p (lib s))\<rparr>)"
  by (simp add: EigenFaceRecognizer_save_def call_save_def split: prod.splits)

lemma EigenFaceRecognizer_save_none:
  "EigenFaceRecognizer.faceRecognizer this = None \<Longrightarrow> EigenFaceRecognizer_save N this p s = (Crash, this, s)"
  by (simp add: EigenFaceRecognizer_save_def)

lemma EigenFaceRecognizer_save_frame:
  "fst (snd (EigenFaceRecognizer_save N this p s)) = this"
  by (cases "EigenFaceRecognizer.faceRecognizer this")
     (simp_all add: EigenFaceRecognizer_save_some EigenFaceRecognizer_save_none)

lemma EigenFaceRecognizer_load_member_some:
  "\<not> CV_VERSION_GREATER_EQUAL cfg 3 3 0 \<Longrightarrow> EigenFaceRecognizer.faceRecognizer this = Some a \<Longrightarrow>
   EigenFaceRecognizer_load N cfg this p s =
     (of_native (fst (cv_load N a p (lib s))), this,
      \<lparr>calls = calls s @ [Member_load a p], lib = snd (cv_load N a p (lib s))\<rparr>)"
  by (simp add: EigenFaceRecognizer_load_def call_load_def split: prod.splits)

lemma EigenFaceRecognizer_load_member_none:
  "\<not> CV_VERSION_GREATER_EQUAL cfg 3 3 0 \<Longrightarrow> EigenFaceRecognizer.faceRecognizer this = None \<Longrightarrow>
   EigenFaceRecognizer_load N cfg this p s = (Crash, this, s)"
  by (simp add: EigenFaceRecognizer_load_def)

lemma EigenFaceRecognizer_load_member_frame:
  "\<not> CV_VERSION_GREATER_EQUAL cfg 3 3 0 \<Longrightarrow>
   fst (snd (EigenFaceRecognizer_load N cfg this p s)) = this"
  by (cases "EigenFaceRecognizer.faceRecognizer this")
     (simp_all add: EigenFaceRecognizer_load_member_some EigenFaceRecognizer_load_member_none)

lemma EigenFaceRecognizer_load_static:
  "CV_VERSION_GREATER_EQUAL cfg 3 3 0 \<Longrightarrow>
   EigenFaceRecognizer_load N cfg this p s =
     (case cv_Algorithm_load N cv_face_EigenFaceRecognizer p (lib s) of
        (Inl x, w) \<Rightarrow>
          (Throw x, this,
           \<lparr>calls = calls s @ [Static_Algorithm_load cv_face_EigenFaceRecognizer p], lib = w\<rparr>)
      | (Inr h, w) \<Rightarrow>
          (Return (), this\<lparr>EigenFaceRecognizer.faceRecognizer := h\<rparr>,
           release_held N (EigenFaceRecognizer.faceRecognizer this)
             \<lparr>calls = calls s @ [Static_Algorithm_load cv_face_EigenFaceRecognizer p], lib = w\<rparr>))"
  by (simp add: EigenFaceRecognizer_load_def call_Algorithm_load_def split: prod.splits sum.splits)

lemma LBPHFaceRecognizer_save_some:
  "LBPHFaceRecognizer.faceRecognizer this = Some a \<Longrightarrow>
   LBPHFaceRecognizer_save N this p s =
     (of_native (fst (cv_save N a p (lib s))), this,
      \<lparr>calls = calls s @ [Member_save a p], lib = snd (cv_save N a p (lib s))\<rparr>)"
  by (simp add: LBPHFaceRecognizer_save_def call_save_def split: prod.splits)

lemma LBPHFaceRecognizer_save_none:
  "LBPHFaceRecognizer.faceRecognizer this = None \<Longrightarrow> LBPHFaceRecognizer_save N this p s = (Crash, this, s)"
  by (simp add: LBPHFaceRecognizer_save_def)

lemma LBPHFaceRecognizer_save_frame:
  "fst (snd (LBPHFaceRecognizer_save N this p s)) = this"
  by (cases "LBPHFaceRecognizer.faceRecognizer this")
     (simp_all add: LBPHFaceRecognizer_save_some LBPHFaceRecognizer_save_none)

lemma LBPHFaceRecognizer_load_member_some:
  "\<not> CV_VERSION_GREATER_EQUAL cfg 3 3 0 \<Longrightarrow> LBPHFaceRecognizer.faceRecognizer this = Some a \<Longrightarrow>
   LBPHFaceRecognizer_load N cfg this p s =
     (of_native (fst (cv_load N a p (lib s))), this,
      \<lparr>calls = calls s @ [Member_load a p], lib = snd (cv_load N a p (lib s))\<rparr>)"
  by (simp add: LBPHFaceRecognizer_load_def call_load_def split: prod.splits)

lemma LBPHFaceRecognizer_load_member_none:
  "\<not> CV_VERSION_GREATER_EQUAL cfg 3 3 0 \<Longrightarrow> LBPHFaceRecognizer.faceRecognizer this = None \<Longrightarrow>
   LBPHFaceRecognizer_load N cfg this p s = (Crash, this, s)"
  by (simp add: LBPHFaceRecognizer_load_def)

lemma LBPHFaceRecognizer_load_member_frame:
  "\<not> CV_VERSION_GREATER_EQUAL cfg 3 3 0 \<Longrightarrow>
   fst (snd (LBPHFaceRecognizer_load N cfg this p s)) = this"
  by (cases "LBPHFaceRecognizer.faceRecognizer this")
     (simp_all add: LBPHFaceRecognizer_load_member_some LBPHFaceRecognizer_load_member_none)

lemma LBPHFaceRecognizer_load_static:
  "CV_VERSION_GREATER_EQUAL cfg 3 3 0 \<Longrightarrow>
   LBPHFaceRecognizer_load N cfg this p s =
     (case cv_Algorithm_load N cv_face_LBPHFaceRecognizer p (lib s) of
        (Inl x, w) \<Rightarrow>
          (Throw x, this,
           \<lparr>calls = calls s @ [Static_Algorithm_load cv_face_LBPHFaceRecognizer p], lib = w\<rparr>)
      | (Inr h, w) \<Rightarrow>
          (Return (), this\<lparr>LBPHFaceRecognizer.faceRecognizer := h\<rparr>,
           release_held N (LBPHFaceRecognizer.faceRecognizer this)
             \<lparr>calls = calls s @ [Static_Algorithm_load cv_face_LBPHFaceRecognizer p], lib = w\<rparr>))"
  by (simp add: LBPHFaceRecognizer_load_def call_Algorithm_load_def split: prod.splits sum.splits)

lemma Objdetect_Init_eq:
  "Objdetect_Init I s =
     \<lparr>inits = inits s @ [CascadeClassifier, HOGDescriptor, DetectionROI],
      target = I DetectionROI (I HOGDescriptor (I CascadeClassifier (target s)))\<rparr>"
  by (simp add: Objdetect_Init_def call_Init_def)

lemma XFeatures2d_Init_eq:
  "XFeatures2d_Init I s =
     \<lparr>inits = inits s @ [SIFTDetector, SURFDetector],
      target = I SURFDetector (I SIFTDetector (target s))\<rparr>"
  by (simp add: XFeatures2d_Init_def call_Init_def)

section \<open>Runs on the small library\<close>

lemma sim_3_3_0: "CV_VERSION_GREATER_EQUAL cv_3_3_0 3 3 0"
  by (simp add: CV_VERSION_GREATER_EQUAL_def cv_3_3_0_def)

lemma sim_3_2_0: "\<not> CV_VERSION_GREATER_EQUAL cv_3_2_0 3 3 0"
  by (simp add: CV_VERSION_GREATER_EQUAL_def cv_3_2_0_def)

lemma calls_sim_start: "calls sim_start = []"
  by (simp add: sim_start_def)

lemma sim_load_model_yml:
  "EigenFaceRecognizer_load sim_native cv_3_3_0 \<lparr>EigenFaceRecognizer.faceRecognizer = Some 0\<rparr>
     ''model.yml'' sim_start =
   (Return (), \<lparr>EigenFaceRecognizer.faceRecognizer = Some 1\<rparr>,
    \<lparr>calls = [Static_Algorithm_load cv_face_EigenFaceRecognizer ''model.yml'', Ptr_release 0],
     lib = \<lparr>files = [(''model.yml'', 7)], objects = [None, Some 7]\<rparr>\<rparr>)"
  by (simp add: EigenFaceRecognizer_load_static sim_3_3_0 sim_native_def sim_Algorithm_load_def
      sim_release_def release_held_def sim_start_def)

lemma sim_load_model_yml_empty:
  "EigenFaceRecognizer_load sim_native cv_3_3_0 \<lparr>EigenFaceRecognizer.faceRecognizer = None\<rparr>
     ''model.yml'' sim_start =
   (Return (), \<lparr>EigenFaceRecognizer.faceRecognizer = Some 1\<rparr>,
    \<lparr>calls = [Static_Algorithm_load cv_face_EigenFaceRecognizer ''model.yml''],
     lib = \<lparr>files = [(''model.yml'', 7)], objects = [Some 5, Some 7]\<rparr>\<rparr>)"
  by (simp add: EigenFaceRecognizer_load_static sim_3_3_0 sim_native_def sim_Algorithm_load_def
      release_held_def sim_start_def)

lemma sim_load_missing:
  "EigenFaceRecognizer_load sim_native cv_3_3_0 \<lparr>EigenFaceRecognizer.faceRecognizer = h\<rparr>
     ''missing.yml'' sim_start =
   (Throw ''cannot open file'', \<lparr>EigenFaceRecognizer.faceRecognizer = h\<rparr>,
    \<lparr>calls = [Static_Algorithm_load cv_face_EigenFaceRecognizer ''missing.yml''],
     lib = \<lparr>files = [(''model.yml'', 7)], objects = [Some 5]\<rparr>\<rparr>)"
  by (simp add: EigenFaceRecognizer_load_static sim_3_3_0 sim_native_def sim_Algorithm_load_def
      sim_start_def)

lemma sim_save_empty:
  "EigenFaceRecognizer_save sim_native \<lparr>EigenFaceRecognizer.faceRecognizer = None\<rparr>
     ''a.yml'' sim_start =
   (Crash, \<lparr>EigenFaceRecognizer.faceRecognizer = None\<rparr>, sim_start)"
  by (simp add: EigenFaceRecognizer_save_none)

lemma sim_save_destroyed:
  "EigenFaceRecognizer_save sim_native \<lparr>EigenFaceRecognizer.faceRecognizer = Some 9\<rparr>
     ''a.yml'' sim_start =
   (Throw ''no object'', \<lparr>EigenFaceRecognizer.faceRecognizer = Some 9\<rparr>,
    \<lparr>calls = [Member_save 9 ''a.yml''],
     lib = \<lparr>files = [(''model.yml'', 7)], objects = [Some 5]\<rparr>\<rparr>)"
  by (simp add: EigenFaceRecognizer_save_some sim_native_def sim_save_def sim_model_def
      sim_start_def)

section \<open>Forwarding\<close>

text \<open>
  Claim C1, as amended. With a handle that is not empty, \<^verbatim>\<open>save(path)\<close> on every build
  and \<^verbatim>\<open>load(path)\<close> on a build below 3.3.0 are one forward to the equivalent native
  member call, \<^verbatim>\<open>save\<close> to \<^verbatim>\<open>save\<close> and \<^verbatim>\<open>load\<close> to \<^verbatim>\<open>load\<close>, on the
  object the wrapper holds and with the path unchanged: the wrapper ends as that call
  ends, leaves the library in the state that call leaves it in, makes no other native
  entry and is itself unchanged. With an empty handle the same statement is a null
  dereference: the process crashes and no native entry is made. On a build of 3.3.0 or
  later \<^verbatim>\<open>load(path)\<close> instead calls the static \<^verbatim>\<open>cv::Algorithm::load<T>(path)\<close>,
  with the path unchanged and without the held handle; when it returns, its result is
  assigned to the handle field and the object held before, if any, is released; when it
  throws, its error is delivered, the wrapper is unchanged and nothing is released. A
  module \<^verbatim>\<open>Init\<close> forwards to each member's \<^verbatim>\<open>Init\<close> in turn, three for
  \<^verbatim>\<open>Objdetect\<close> and two for \<^verbatim>\<open>XFeatures2d\<close>, and adds nothing.
\<close>

theorem save_and_load_forward:
  "(EigenFaceRecognizer.faceRecognizer e = Some a \<longrightarrow>
      EigenFaceRecognizer_save N e p s
        = (of_native (fst (cv_save N a p (lib s))), e,
           \<lparr>calls = calls s @ [Member_save a p], lib = snd (cv_save N a p (lib s))\<rparr>)
      \<and> (\<not> CV_VERSION_GREATER_EQUAL cfg 3 3 0 \<longrightarrow>
           EigenFaceRecognizer_load N cfg e p s
             = (of_native (fst (cv_load N a p (lib s))), e,
                \<lparr>calls = calls s @ [Member_load a p], lib = snd (cv_load N a p (lib s))\<rparr>)))
   \<and> (EigenFaceRecognizer.faceRecognizer e = None \<longrightarrow>
      EigenFaceRecognizer_save N e p s = (Crash, e, s)
      \<and> (\<not> CV_VERSION_GREATER_EQUAL cfg 3 3 0 \<longrightarrow>
           EigenFaceRecognizer_load N cfg e p s = (Crash, e, s)))
   \<and> (CV_VERSION_GREATER_EQUAL cfg 3 3 0 \<longrightarrow>
      EigenFaceRecognizer_load N cfg e p s
        = (case cv_Algorithm_load N cv_face_EigenFaceRecognizer p (lib s) of
             (Inl x, w) \<Rightarrow>
               (Throw x, e,
                \<lparr>calls = calls s @ [Static_Algorithm_load cv_face_EigenFaceRecognizer p], lib = w\<rparr>)
           | (Inr h, w) \<Rightarrow>
               (Return (), e\<lparr>EigenFaceRecognizer.faceRecognizer := h\<rparr>,
                release_held N (EigenFaceRecognizer.faceRecognizer e)
                  \<lparr>calls = calls s @ [Static_Algorithm_load cv_face_EigenFaceRecognizer p], lib = w\<rparr>)))
   \<and> (LBPHFaceRecognizer.faceRecognizer l = Some b \<longrightarrow>
      LBPHFaceRecognizer_save N l p s
        = (of_native (fst (cv_save N b p (lib s))), l,
           \<lparr>calls = calls s @ [Member_save b p], lib = snd (cv_save N b p (lib s))\<rparr>)
      \<and> (\<not> CV_VERSION_GREATER_EQUAL cfg 3 3 0 \<longrightarrow>
           LBPHFaceRecognizer_load N cfg l p s
             = (of_native (fst (cv_load N b p (lib s))), l,
                \<lparr>calls = calls s @ [Member_load b p], lib = snd (cv_load N b p (lib s))\<rparr>)))
   \<and> (LBPHFaceRecognizer.faceRecognizer l = None \<longrightarrow>
      LBPHFaceRecognizer_save N l p s = (Crash, l, s)
      \<and> (\<not> CV_VERSION_GREATER_EQUAL cfg 3 3 0 \<longrightarrow>
           LBPHFaceRecognizer_load N cfg l p s = (Crash, l, s)))
   \<and> (CV_VERSION_GREATER_EQUAL cfg 3 3 0 \<longrightarrow>
      LBPHFaceRecognizer_load N cfg l p s
        = (case cv_Algorithm_load N cv_face_LBPHFaceRecognizer p (lib s) of
             (Inl x, w) \<Rightarrow>
               (Throw x, l,
                \<lparr>calls = calls s @ [Static_Algorithm_load cv_face_LBPHFaceRecognizer p], lib = w\<rparr>)
           | (Inr h, w) \<Rightarrow>
               (Return (), l\<lparr>LBPHFaceRecognizer.faceRecognizer := h\<rparr>,
                release_held N (LBPHFaceRecognizer.faceRecognizer l)
                  \<lparr>calls = calls s @ [Static_Algorithm_load cv_face_LBPHFaceRecognizer p], lib = w\<rparr>)))
   \<and> Objdetect_Init I t
       = \<lparr>inits = inits t @ [CascadeClassifier, HOGDescriptor, DetectionROI],
          target = I DetectionROI (I HOGDescriptor (I CascadeClassifier (target t)))\<rparr>
   \<and> XFeatures2d_Init I t
       = \<lparr>inits = inits t @ [SIFTDetector, SURFDetector],
          target = I SURFDetector (I SIFTDetector (target t))\<rparr>"
  by (simp add: EigenFaceRecognizer_save_some EigenFaceRecognizer_save_none
      EigenFaceRecognizer_load_member_some EigenFaceRecognizer_load_member_none
      EigenFaceRecognizer_load_static
      LBPHFaceRecognizer_save_some LBPHFaceRecognizer_save_none
      LBPHFaceRecognizer_load_member_some LBPHFaceRecognizer_load_member_none
      LBPHFaceRecognizer_load_static
      Objdetect_Init_eq XFeatures2d_Init_eq)

theorem save_and_load_forward_witness:
  "CV_VERSION_GREATER_EQUAL cv_3_3_0 3 3 0 \<and> \<not> CV_VERSION_GREATER_EQUAL cv_3_2_0 3 3 0
   \<and> EigenFaceRecognizer_save sim_native \<lparr>EigenFaceRecognizer.faceRecognizer = Some 0\<rparr>
        ''a.yml'' sim_start
      = (Return (), \<lparr>EigenFaceRecognizer.faceRecognizer = Some 0\<rparr>,
         \<lparr>calls = [Member_save 0 ''a.yml''],
          lib = \<lparr>files = [(''a.yml'', 5), (''model.yml'', 7)], objects = [Some 5]\<rparr>\<rparr>)
   \<and> EigenFaceRecognizer_load sim_native cv_3_2_0
        \<lparr>EigenFaceRecognizer.faceRecognizer = Some 0\<rparr> ''model.yml'' sim_start
      = (Return (), \<lparr>EigenFaceRecognizer.faceRecognizer = Some 0\<rparr>,
         \<lparr>calls = [Member_load 0 ''model.yml''],
          lib = \<lparr>files = [(''model.yml'', 7)], objects = [Some 7]\<rparr>\<rparr>)
   \<and> EigenFaceRecognizer_load sim_native cv_3_3_0
        \<lparr>EigenFaceRecognizer.faceRecognizer = Some 0\<rparr> ''model.yml'' sim_start
      = (Return (), \<lparr>EigenFaceRecognizer.faceRecognizer = Some 1\<rparr>,
         \<lparr>calls = [Static_Algorithm_load cv_face_EigenFaceRecognizer ''model.yml'',
                   Ptr_release 0],
          lib = \<lparr>files = [(''model.yml'', 7)], objects = [None, Some 7]\<rparr>\<rparr>)
   \<and> LBPHFaceRecognizer_save sim_native \<lparr>LBPHFaceRecognizer.faceRecognizer = None\<rparr>
        ''a.yml'' sim_start
      = (Crash, \<lparr>LBPHFaceRecognizer.faceRecognizer = None\<rparr>, sim_start)"
  using save_and_load_forward [of "\<lparr>EigenFaceRecognizer.faceRecognizer = Some 0\<rparr>" 0
      sim_native "''a.yml''" sim_start cv_3_2_0
      "\<lparr>LBPHFaceRecognizer.faceRecognizer = None\<rparr>" 0
      "\<lambda>c t. t @ [c]" "\<lparr>inits = [], target = []\<rparr>"]
    save_and_load_forward [of "\<lparr>EigenFaceRecognizer.faceRecognizer = Some 0\<rparr>" 0
      sim_native "''model.yml''" sim_start cv_3_2_0
      "\<lparr>LBPHFaceRecognizer.faceRecognizer = None\<rparr>" 0
      "\<lambda>c t. t @ [c]" "\<lparr>inits = [], target = []\<rparr>"]
    save_and_load_forward [of "\<lparr>EigenFaceRecognizer.faceRecognizer = Some 0\<rparr>" 0
      sim_native "''model.yml''" sim_start cv_3_3_0
      "\<lparr>LBPHFaceRecognizer.faceRecognizer = None\<rparr>" 0
      "\<lambda>c t. t @ [c]" "\<lparr>inits = [], target = []\<rparr>"]
    sim_3_3_0 sim_3_2_0
  by (simp add: sim_native_def sim_save_def sim_load_def sim_Algorithm_load_def sim_release_def
      sim_model_def release_held_def sim_start_def)

text \<open>
  Claim C1 without the amendment does not hold at version 3.3.0: \<^verbatim>\<open>load\<close> on a
  wrapper holding object 0 makes two native entries, the static load and the release of
  the object held, and not the one member call on object 0.
\<close>

theorem load_forward_counterexample:
  "calls_made sim_start
     (snd (snd (EigenFaceRecognizer_load sim_native cv_3_3_0
        \<lparr>EigenFaceRecognizer.faceRecognizer = Some 0\<rparr> ''model.yml'' sim_start)))
     = [Static_Algorithm_load cv_face_EigenFaceRecognizer ''model.yml'', Ptr_release 0]
   \<and> calls_made sim_start
     (snd (snd (EigenFaceRecognizer_load sim_native cv_3_3_0
        \<lparr>EigenFaceRecognizer.faceRecognizer = Some 0\<rparr> ''model.yml'' sim_start)))
     \<noteq> [Member_load 0 ''model.yml'']"
  by (simp add: sim_load_model_yml calls_made_def calls_sim_start)

section \<open>Entry points the classes expose\<close>



section \<open>The save and load round trip\<close>









section \<open>The handle field\<close>

text \<open>
  Claim C4, as amended. After construction, \<^verbatim>\<open>save\<close> and the accessors never replace
  the handle field, and neither does \<^verbatim>\<open>load\<close> on a build below 3.3.0 nor a
  \<^verbatim>\<open>load\<close> that throws. On a build of 3.3.0 or later a \<^verbatim>\<open>load(path)\<close> that returns
  replaces the handle field, and only that field, with the handle that
  \<^verbatim>\<open>cv::Algorithm::load<T>(path)\<close> returned.
\<close>

theorem handle_field_frame:
  "fst (snd (EigenFaceRecognizer_save N e p s)) = e
   \<and> snd (EigenFaceRecognizer_getFaceRecognizer e) = e
   \<and> fst (snd (LBPHFaceRecognizer_save N l p s)) = l
   \<and> snd (LBPHFaceRecognizer_getFaceRecognizer l) = l
   \<and> snd (TrackerMOSSE_getTracker m) = m
   \<and> snd (TrackerGOTURN_getTracker g) = g
   \<and> (\<not> CV_VERSION_GREATER_EQUAL cfg 3 3 0 \<longrightarrow>
        fst (snd (EigenFaceRecognizer_load N cfg e p s)) = e
        \<and> fst (snd (LBPHFaceRecognizer_load N cfg l p s)) = l)
   \<and> (CV_VERSION_GREATER_EQUAL cfg 3 3 0 \<longrightarrow>
        (case cv_Algorithm_load N cv_face_EigenFaceRecognizer p (lib s) of
           (Inl x, w) \<Rightarrow> fst (snd (EigenFaceRecognizer_load N cfg e p s)) = e
         | (Inr h, w) \<Rightarrow> fst (snd (EigenFaceRecognizer_load N cfg e p s))
                          = e\<lparr>EigenFaceRecognizer.faceRecognizer := h\<rparr>)
        \<and> (case cv_Algorithm_load N cv_face_LBPHFaceRecognizer p (lib s) of
              (Inl x, w) \<Rightarrow> fst (snd (LBPHFaceRecognizer_load N cfg l p s)) = l
            | (Inr h, w) \<Rightarrow> fst (snd (LBPHFaceRecognizer_load N cfg l p s))
                             = l\<lparr>LBPHFaceRecognizer.faceRecognizer := h\<rparr>))"
  by (simp add: EigenFaceRecognizer_save_frame LBPHFaceRecognizer_save_frame
      EigenFaceRecognizer_load_member_frame LBPHFaceRecognizer_load_member_frame
      EigenFaceRecognizer_load_static LBPHFaceRecognizer_load_static
      EigenFaceRecognizer_getFaceRecognizer_def LBPHFaceRecognizer_getFaceRecognizer_def
      TrackerMOSSE_getTracker_def TrackerGOTURN_getTracker_def
      split: prod.splits sum.splits)

theorem handle_field_frame_witness:
  "CV_VERSION_GREATER_EQUAL cv_3_3_0 3 3 0 \<and> \<not> CV_VERSION_GREATER_EQUAL cv_3_2_0 3 3 0
   \<and> fst (snd (EigenFaceRecognizer_load sim_native cv_3_3_0
         \<lparr>EigenFaceRecognizer.faceRecognizer = Some 0\<rparr> ''model.yml'' sim_start))
       = \<lparr>EigenFaceRecognizer.faceRecognizer = Some 1\<rparr>
   \<and> fst (snd (EigenFaceRecognizer_load sim_native cv_3_2_0
         \<lparr>EigenFaceRecognizer.faceRecognizer = Some 0\<rparr> ''model.yml'' sim_start))
       = \<lparr>EigenFaceRecognizer.faceRecognizer = Some 0\<rparr>"
  using handle_field_frame [of sim_native "\<lparr>EigenFaceRecognizer.faceRecognizer = Some 0\<rparr>"
      "''model.yml''" sim_start "\<lparr>LBPHFaceRecognizer.faceRecognizer = Some 0\<rparr>"
      "\<lparr>TrackerMOSSE.tracker = None\<rparr>" "\<lparr>TrackerGOTURN.tracker = None\<rparr>" cv_3_3_0]
    handle_field_frame [of sim_native "\<lparr>EigenFaceRecognizer.faceRecognizer = Some 0\<rparr>"
      "''model.yml''" sim_start "\<lparr>LBPHFaceRecognizer.faceRecognizer = Some 0\<rparr>"
      "\<lparr>TrackerMOSSE.tracker = None\<rparr>" "\<lparr>TrackerGOTURN.tracker = None\<rparr>" cv_3_2_0]
    sim_3_3_0 sim_3_2_0
  by (simp add: sim_native_def sim_Algorithm_load_def sim_start_def)

text \<open>
  Claim C4 without the amendment does not hold at version 3.3.0: after \<^verbatim>\<open>load\<close> of
  a file that exists, the wrapper holds another handle than before.
\<close>

theorem load_replaces_handle_counterexample:
  "EigenFaceRecognizer.faceRecognizer (fst (snd (EigenFaceRecognizer_load sim_native cv_3_3_0
      \<lparr>EigenFaceRecognizer.faceRecognizer = Some 0\<rparr> ''model.yml'' sim_start)))
   \<noteq> Some 0"
  by (simp add: sim_load_model_yml)

section \<open>No guard on the handle\<close>

text \<open>
  Claim C5, as amended. The wrappers do not check the handle: \<^verbatim>\<open>save(path)\<close>
  dereferences the stored handle with no guard of its own. With an empty handle that is a
  null dereference: the process crashes before any native entry point is entered, so the
  library's error paths are never reached and nothing enforces the precondition. With a
  handle that is not empty, \<^verbatim>\<open>save\<close> enters the native call on the held object and
  has no failing branch of its own: it does not crash, and any error it delivers is one
  the native call raised.
\<close>

theorem save_has_no_guard:
  "(EigenFaceRecognizer.faceRecognizer e = None \<longrightarrow>
      EigenFaceRecognizer_save N e p s = (Crash, e, s)
      \<and> calls_made s (snd (snd (EigenFaceRecognizer_save N e p s))) = [])
   \<and> (EigenFaceRecognizer.faceRecognizer e = Some a \<longrightarrow>
      fst (EigenFaceRecognizer_save N e p s) \<noteq> Crash
      \<and> calls_made s (snd (snd (EigenFaceRecognizer_save N e p s))) = [Member_save a p]
      \<and> (\<forall>x. fst (EigenFaceRecognizer_save N e p s) = Throw x \<longrightarrow>
             fst (cv_save N a p (lib s)) = Inl x))
   \<and> (LBPHFaceRecognizer.faceRecognizer l = None \<longrightarrow>
      LBPHFaceRecognizer_save N l p s = (Crash, l, s)
      \<and> calls_made s (snd (snd (LBPHFaceRecognizer_save N l p s))) = [])
   \<and> (LBPHFaceRecognizer.faceRecognizer l = Some b \<longrightarrow>
      fst (LBPHFaceRecognizer_save N l p s) \<noteq> Crash
      \<and> calls_made s (snd (snd (LBPHFaceRecognizer_save N l p s))) = [Member_save b p]
      \<and> (\<forall>x. fst (LBPHFaceRecognizer_save N l p s) = Throw x \<longrightarrow>
             fst (cv_save N b p (lib s)) = Inl x))"
  by (simp add: EigenFaceRecognizer_save_some EigenFaceRecognizer_save_none
      LBPHFaceRecognizer_save_some LBPHFaceRecognizer_save_none calls_made_def
      of_native_Throw of_native_not_Crash)

theorem save_has_no_guard_witness:
  "EigenFaceRecognizer.faceRecognizer \<lparr>EigenFaceRecognizer.faceRecognizer = None\<rparr> = None
   \<and> EigenFaceRecognizer.faceRecognizer \<lparr>EigenFaceRecognizer.faceRecognizer = Some 9\<rparr>
       = Some 9
   \<and> EigenFaceRecognizer_save sim_native \<lparr>EigenFaceRecognizer.faceRecognizer = None\<rparr>
        ''a.yml'' sim_start
      = (Crash, \<lparr>EigenFaceRecognizer.faceRecognizer = None\<rparr>, sim_start)
   \<and> fst (EigenFaceRecognizer_save sim_native \<lparr>EigenFaceRecognizer.faceRecognizer = Some 9\<rparr>
        ''a.yml'' sim_start) = Throw ''no object''
   \<and> fst (cv_save sim_native 9 ''a.yml'' (lib sim_start)) = Inl ''no object''
   \<and> calls_made sim_start (snd (snd (EigenFaceRecognizer_save sim_native
         \<lparr>EigenFaceRecognizer.faceRecognizer = Some 9\<rparr> ''a.yml'' sim_start)))
       = [Member_save 9 ''a.yml'']"
  using save_has_no_guard [of "\<lparr>EigenFaceRecognizer.faceRecognizer = None\<rparr>"
      sim_native "''a.yml''" sim_start 9 "\<lparr>LBPHFaceRecognizer.faceRecognizer = None\<rparr>" 9]
    save_has_no_guard [of "\<lparr>EigenFaceRecognizer.faceRecognizer = Some 9\<rparr>"
      sim_native "''a.yml''" sim_start 9 "\<lparr>LBPHFaceRecognizer.faceRecognizer = Some 9\<rparr>" 9]
  by (simp add: sim_save_destroyed)

text \<open>
  Claim C5 without the amendment does not hold at the empty handle: \<^verbatim>\<open>save\<close> ends in
  a crash with no native entry made, not in an error of the library.
\<close>

theorem empty_handle_save_counterexample:
  "fst (EigenFaceRecognizer_save sim_native \<lparr>EigenFaceRecognizer.faceRecognizer = None\<rparr>
          ''a.yml'' sim_start) = Crash
   \<and> calls_made sim_start (snd (snd (EigenFaceRecognizer_save sim_native
          \<lparr>EigenFaceRecognizer.faceRecognizer = None\<rparr> ''a.yml'' sim_start))) = []"
  by (simp add: sim_save_empty calls_made_def)

section \<open>Errors\<close>

text \<open>
  Claim C6. For every wrapper and path, \<^verbatim>\<open>save(path)\<close> and \<^verbatim>\<open>load(path)\<close> raise
  an error exactly when the native call they forward to raises one, and it is that error,
  unchanged. With a handle that is not empty the wrapper ends as the native call ends;
  with an empty handle, where \<^verbatim>\<open>save\<close> and \<^verbatim>\<open>load\<close> below 3.3.0 crash, no native
  call is made and no error is raised.
\<close>

theorem errors_are_the_native_ones:
  "(\<forall>x. (fst (EigenFaceRecognizer_save N e p s) = Throw x)
          = (\<exists>a. EigenFaceRecognizer.faceRecognizer e = Some a \<and> fst (cv_save N a p (lib s)) = Inl x))
   \<and> (EigenFaceRecognizer.faceRecognizer e = Some a \<longrightarrow>
        fst (EigenFaceRecognizer_save N e p s) = of_native (fst (cv_save N a p (lib s))))
   \<and> (\<not> CV_VERSION_GREATER_EQUAL cfg 3 3 0 \<longrightarrow>
        (\<forall>x. (fst (EigenFaceRecognizer_load N cfg e p s) = Throw x)
            = (\<exists>a. EigenFaceRecognizer.faceRecognizer e = Some a \<and> fst (cv_load N a p (lib s)) = Inl x))
        \<and> (EigenFaceRecognizer.faceRecognizer e = Some a \<longrightarrow>
             fst (EigenFaceRecognizer_load N cfg e p s) = of_native (fst (cv_load N a p (lib s)))))
   \<and> (CV_VERSION_GREATER_EQUAL cfg 3 3 0 \<longrightarrow>
        (\<forall>x. (fst (EigenFaceRecognizer_load N cfg e p s) = Throw x)
            = (fst (cv_Algorithm_load N cv_face_EigenFaceRecognizer p (lib s)) = Inl x))
        \<and> fst (EigenFaceRecognizer_load N cfg e p s) \<noteq> Crash)
   \<and> (\<forall>x. (fst (LBPHFaceRecognizer_save N l p s) = Throw x)
          = (\<exists>a. LBPHFaceRecognizer.faceRecognizer l = Some a \<and> fst (cv_save N a p (lib s)) = Inl x))
   \<and> (LBPHFaceRecognizer.faceRecognizer l = Some b \<longrightarrow>
        fst (LBPHFaceRecognizer_save N l p s) = of_native (fst (cv_save N b p (lib s))))
   \<and> (\<not> CV_VERSION_GREATER_EQUAL cfg 3 3 0 \<longrightarrow>
        (\<forall>x. (fst (LBPHFaceRecognizer_load N cfg l p s) = Throw x)
            = (\<exists>a. LBPHFaceRecognizer.faceRecognizer l = Some a \<and> fst (cv_load N a p (lib s)) = Inl x))
        \<and> (LBPHFaceRecognizer.faceRecognizer l = Some b \<longrightarrow>
             fst (LBPHFaceRecognizer_load N cfg l p s) = of_native (fst (cv_load N b p (lib s)))))
   \<and> (CV_VERSION_GREATER_EQUAL cfg 3 3 0 \<longrightarrow>
        (\<forall>x. (fst (LBPHFaceRecognizer_load N cfg l p s) = Throw x)
            = (fst (cv_Algorithm_load N cv_face_LBPHFaceRecognizer p (lib s)) = Inl x))
        \<and> fst (LBPHFaceRecognizer_load N cfg l p s) \<noteq> Crash)"
  by (cases "EigenFaceRecognizer.faceRecognizer e"; cases "LBPHFaceRecognizer.faceRecognizer l";
      cases "CV_VERSION_GREATER_EQUAL cfg 3 3 0")
     (auto simp: EigenFaceRecognizer_save_some EigenFaceRecognizer_save_none
        EigenFaceRecognizer_load_member_some EigenFaceRecognizer_load_member_none
        EigenFaceRecognizer_load_static
        LBPHFaceRecognizer_save_some LBPHFaceRecognizer_save_none
        LBPHFaceRecognizer_load_member_some LBPHFaceRecognizer_load_member_none
        LBPHFaceRecognizer_load_static of_native_Throw
        split: prod.splits sum.splits)

theorem errors_are_the_native_ones_witness:
  "CV_VERSION_GREATER_EQUAL cv_3_3_0 3 3 0 \<and> \<not> CV_VERSION_GREATER_EQUAL cv_3_2_0 3 3 0
   \<and> fst (EigenFaceRecognizer_save sim_native \<lparr>EigenFaceRecognizer.faceRecognizer = Some 9\<rparr>
         ''missing.yml'' sim_start) = Throw ''no object''
   \<and> fst (cv_save sim_native 9 ''missing.yml'' (lib sim_start)) = Inl ''no object''
   \<and> fst (EigenFaceRecognizer_load sim_native cv_3_3_0
         \<lparr>EigenFaceRecognizer.faceRecognizer = Some 9\<rparr> ''missing.yml'' sim_start)
       = Throw ''cannot open file''
   \<and> fst (cv_Algorithm_load sim_native cv_face_EigenFaceRecognizer ''missing.yml''
         (lib sim_start))
       = Inl ''cannot open file''
   \<and> fst (EigenFaceRecognizer_load sim_native cv_3_2_0
         \<lparr>EigenFaceRecognizer.faceRecognizer = Some 9\<rparr> ''missing.yml'' sim_start)
       = of_native (fst (cv_load sim_native 9 ''missing.yml'' (lib sim_start)))
   \<and> fst (LBPHFaceRecognizer_load sim_native cv_3_2_0
         \<lparr>LBPHFaceRecognizer.faceRecognizer = Some 0\<rparr> ''missing.yml'' sim_start)
       = Throw ''cannot open file''"
  using errors_are_the_native_ones [of sim_native
      "\<lparr>EigenFaceRecognizer.faceRecognizer = Some 9\<rparr>" "''missing.yml''" sim_start 9 cv_3_3_0
      "\<lparr>LBPHFaceRecognizer.faceRecognizer = Some 0\<rparr>" 0]
    errors_are_the_native_ones [of sim_native
      "\<lparr>EigenFaceRecognizer.faceRecognizer = Some 9\<rparr>" "''missing.yml''" sim_start 9 cv_3_2_0
      "\<lparr>LBPHFaceRecognizer.faceRecognizer = Some 0\<rparr>" 0]
    sim_3_3_0 sim_3_2_0
  by (simp add: sim_native_def sim_save_def sim_load_def sim_Algorithm_load_def sim_model_def
      sim_start_def)

section \<open>Order of registration\<close>

text \<open>
  Claim C7. \<^verbatim>\<open>Objdetect::Init\<close> runs the \<^verbatim>\<open>Init\<close> of \<^verbatim>\<open>CascadeClassifier\<close>,
  then of \<^verbatim>\<open>HOGDescriptor\<close>, then of \<^verbatim>\<open>DetectionROI\<close>, each once, and does nothing
  else to the target; \<^verbatim>\<open>XFeatures2d::Init\<close> runs the \<^verbatim>\<open>Init\<close> of
  \<^verbatim>\<open>SIFTDetector\<close>, then of \<^verbatim>\<open>SURFDetector\<close>, each once, and does nothing else to
  the target.
\<close>

theorem module_Init_order:
  "inits (Objdetect_Init I s) = inits s @ [CascadeClassifier, HOGDescriptor, DetectionROI]
   \<and> target (Objdetect_Init I s)
       = I DetectionROI (I HOGDescriptor (I CascadeClassifier (target s)))
   \<and> inits (XFeatures2d_Init I s) = inits s @ [SIFTDetector, SURFDetector]
   \<and> target (XFeatures2d_Init I s) = I SURFDetector (I SIFTDetector (target s))"
  by (simp add: Objdetect_Init_eq XFeatures2d_Init_eq)

theorem module_Init_order_witness:
  "inits (Objdetect_Init (\<lambda>c t. t @ [c]) \<lparr>inits = [], target = []\<rparr>)
     = [CascadeClassifier, HOGDescriptor, DetectionROI]
   \<and> target (Objdetect_Init (\<lambda>c t. t @ [c]) \<lparr>inits = [], target = []\<rparr>)
     = [CascadeClassifier, HOGDescriptor, DetectionROI]
   \<and> inits (XFeatures2d_Init (\<lambda>c t. t @ [c]) \<lparr>inits = [], target = []\<rparr>)
     = [SIFTDetector, SURFDetector]
   \<and> target (XFeatures2d_Init (\<lambda>c t. t @ [c]) \<lparr>inits = [], target = []\<rparr>)
     = [SIFTDetector, SURFDetector]"
  using module_Init_order [of "\<lambda>c t. t @ [c]" "\<lparr>inits = [], target = []\<rparr>"]
  by simp

section \<open>The static load does not receive the held handle\<close>

text \<open>
  Claim C8, as amended. On a build of 3.3.0 or later the native load that
  \<^verbatim>\<open>load(path)\<close> calls is the static one, which receives the path and not the stored
  handle: for any two states of the wrapper, the empty handle included, and the same
  library state, \<^verbatim>\<open>load\<close> of the same path ends the same way and never crashes. When
  the static load returns, the handle after it is the returned handle, the same for both
  wrappers; the assignment then releases the object each wrapper held before, if any, so
  the stored handle is read and the library state afterwards depends on it. When the
  static load throws, each wrapper is left as it was and nothing is released.
\<close>

theorem static_load_ignores_held_handle:
  assumes "CV_VERSION_GREATER_EQUAL cfg 3 3 0"
  shows
  "fst (EigenFaceRecognizer_load N cfg e1 p s) = fst (EigenFaceRecognizer_load N cfg e2 p s)
   \<and> fst (EigenFaceRecognizer_load N cfg e1 p s) \<noteq> Crash
   \<and> take 1 (calls_made s (snd (snd (EigenFaceRecognizer_load N cfg e1 p s))))
       = [Static_Algorithm_load cv_face_EigenFaceRecognizer p]
   \<and> (case cv_Algorithm_load N cv_face_EigenFaceRecognizer p (lib s) of
         (Inl x, w) \<Rightarrow>
           EigenFaceRecognizer_load N cfg e1 p s
             = (Throw x, e1,
                \<lparr>calls = calls s @ [Static_Algorithm_load cv_face_EigenFaceRecognizer p], lib = w\<rparr>)
           \<and> EigenFaceRecognizer_load N cfg e2 p s
             = (Throw x, e2,
                \<lparr>calls = calls s @ [Static_Algorithm_load cv_face_EigenFaceRecognizer p], lib = w\<rparr>)
       | (Inr h, w) \<Rightarrow>
           EigenFaceRecognizer.faceRecognizer (fst (snd (EigenFaceRecognizer_load N cfg e1 p s))) = h
           \<and> EigenFaceRecognizer.faceRecognizer (fst (snd (EigenFaceRecognizer_load N cfg e2 p s))) = h
           \<and> snd (snd (EigenFaceRecognizer_load N cfg e1 p s))
               = release_held N (EigenFaceRecognizer.faceRecognizer e1)
                   \<lparr>calls = calls s @ [Static_Algorithm_load cv_face_EigenFaceRecognizer p], lib = w\<rparr>
           \<and> snd (snd (EigenFaceRecognizer_load N cfg e2 p s))
               = release_held N (EigenFaceRecognizer.faceRecognizer e2)
                   \<lparr>calls = calls s @ [Static_Algorithm_load cv_face_EigenFaceRecognizer p], lib = w\<rparr>)
   \<and> fst (LBPHFaceRecognizer_load N cfg l1 p s) = fst (LBPHFaceRecognizer_load N cfg l2 p s)
   \<and> fst (LBPHFaceRecognizer_load N cfg l1 p s) \<noteq> Crash
   \<and> take 1 (calls_made s (snd (snd (LBPHFaceRecognizer_load N cfg l1 p s))))
       = [Static_Algorithm_load cv_face_LBPHFaceRecognizer p]
   \<and> (case cv_Algorithm_load N cv_face_LBPHFaceRecognizer p (lib s) of
         (Inl x, w) \<Rightarrow>
           LBPHFaceRecognizer_load N cfg l1 p s
             = (Throw x, l1,
                \<lparr>calls = calls s @ [Static_Algorithm_load cv_face_LBPHFaceRecognizer p], lib = w\<rparr>)
           \<and> LBPHFaceRecognizer_load N cfg l2 p s
             = (Throw x, l2,
                \<lparr>calls = calls s @ [Static_Algorithm_load cv_face_LBPHFaceRecognizer p], lib = w\<rparr>)
       | (Inr h, w) \<Rightarrow>
           LBPHFaceRecognizer.faceRecognizer (fst (snd (LBPHFaceRecognizer_load N cfg l1 p s))) = h
           \<and> LBPHFaceRecognizer.faceRecognizer (fst (snd (LBPHFaceRecognizer_load N cfg l2 p s))) = h
           \<and> snd (snd (LBPHFaceRecognizer_load N cfg l1 p s))
               = release_held N (LBPHFaceRecognizer.faceRecognizer l1)
                   \<lparr>calls = calls s @ [Static_Algorithm_load cv_face_LBPHFaceRecognizer p], lib = w\<rparr>
           \<and> snd (snd (LBPHFaceRecognizer_load N cfg l2 p s))
               = release_held N (LBPHFaceRecognizer.faceRecognizer l2)
                   \<lparr>calls = calls s @ [Static_Algorithm_load cv_face_LBPHFaceRecognizer p], lib = w\<rparr>)"
  using assms
  by (simp add: EigenFaceRecognizer_load_static LBPHFaceRecognizer_load_static
      calls_made_def release_held_def split: prod.splits sum.splits option.splits)

theorem static_load_ignores_held_handle_witness:
  "CV_VERSION_GREATER_EQUAL cv_3_3_0 3 3 0
   \<and> EigenFaceRecognizer.faceRecognizer (fst (snd (EigenFaceRecognizer_load sim_native cv_3_3_0
         \<lparr>EigenFaceRecognizer.faceRecognizer = None\<rparr> ''model.yml'' sim_start))) = Some 1
   \<and> EigenFaceRecognizer.faceRecognizer (fst (snd (EigenFaceRecognizer_load sim_native cv_3_3_0
         \<lparr>EigenFaceRecognizer.faceRecognizer = Some 0\<rparr> ''model.yml'' sim_start))) = Some 1
   \<and> snd (snd (EigenFaceRecognizer_load sim_native cv_3_3_0
         \<lparr>EigenFaceRecognizer.faceRecognizer = Some 0\<rparr> ''model.yml'' sim_start))
       = \<lparr>calls = [Static_Algorithm_load cv_face_EigenFaceRecognizer ''model.yml'',
                   Ptr_release 0],
          lib = \<lparr>files = [(''model.yml'', 7)], objects = [None, Some 7]\<rparr>\<rparr>
   \<and> EigenFaceRecognizer_load sim_native cv_3_3_0
         \<lparr>EigenFaceRecognizer.faceRecognizer = Some 0\<rparr> ''missing.yml'' sim_start
       = (Throw ''cannot open file'', \<lparr>EigenFaceRecognizer.faceRecognizer = Some 0\<rparr>,
          \<lparr>calls = [Static_Algorithm_load cv_face_EigenFaceRecognizer ''missing.yml''],
           lib = \<lparr>files = [(''model.yml'', 7)], objects = [Some 5]\<rparr>\<rparr>)"
  using static_load_ignores_held_handle [OF sim_3_3_0, of sim_native
      "\<lparr>EigenFaceRecognizer.faceRecognizer = None\<rparr>" "''model.yml''" sim_start
      "\<lparr>EigenFaceRecognizer.faceRecognizer = Some 0\<rparr>"
      "\<lparr>LBPHFaceRecognizer.faceRecognizer = None\<rparr>"
      "\<lparr>LBPHFaceRecognizer.faceRecognizer = Some 0\<rparr>"]
    static_load_ignores_held_handle [OF sim_3_3_0, of sim_native
      "\<lparr>EigenFaceRecognizer.faceRecognizer = None\<rparr>" "''missing.yml''" sim_start
      "\<lparr>EigenFaceRecognizer.faceRecognizer = Some 0\<rparr>"
      "\<lparr>LBPHFaceRecognizer.faceRecognizer = None\<rparr>"
      "\<lparr>LBPHFaceRecognizer.faceRecognizer = Some 0\<rparr>"]
    sim_3_3_0
  by (simp add: sim_native_def sim_Algorithm_load_def sim_release_def release_held_def
      sim_start_def)

text \<open>
  Claim C8 without the amendment does not hold at version 3.3.0. When the load throws,
  two wrappers that held different handles hold different handles afterwards. When it
  returns, the stored handle is read: the object held before is released, which a wrapper
  that held nothing does not do.
\<close>

theorem held_handle_matters_counterexample:
  "EigenFaceRecognizer.faceRecognizer (fst (snd (EigenFaceRecognizer_load sim_native cv_3_3_0
      \<lparr>EigenFaceRecognizer.faceRecognizer = None\<rparr> ''missing.yml'' sim_start)))
   \<noteq> EigenFaceRecognizer.faceRecognizer (fst (snd (EigenFaceRecognizer_load sim_native cv_3_3_0
      \<lparr>EigenFaceRecognizer.faceRecognizer = Some 0\<rparr> ''missing.yml'' sim_start)))
   \<and> calls_made sim_start (snd (snd (EigenFaceRecognizer_load sim_native cv_3_3_0
      \<lparr>EigenFaceRecognizer.faceRecognizer = None\<rparr> ''model.yml'' sim_start)))
     = [Static_Algorithm_load cv_face_EigenFaceRecognizer ''model.yml'']
   \<and> calls_made sim_start (snd (snd (EigenFaceRecognizer_load sim_native cv_3_3_0
      \<lparr>EigenFaceRecognizer.faceRecognizer = Some 0\<rparr> ''model.yml'' sim_start)))
     = [Static_Algorithm_load cv_face_EigenFaceRecognizer ''model.yml'', Ptr_release 0]"
  by (simp add: sim_load_missing sim_load_model_yml sim_load_model_yml_empty calls_made_def
      calls_sim_start)

end
